theory Spec2Isabelle
  imports Main "HOL-Library.Sublist"
begin

section \<open>Machine records\<close>

text \<open>
  The fields of \<open>object.Machine\<close> that \<open>controllers/machine.go\<close> reads, together with the
  owner of the composite id \<open>owner/name\<close>. Go strings are byte sequences, as \<open>string\<close> is.
\<close>

record Machine =
  Owner :: string
  Name :: string
  DisplayName :: string
  Provider :: string
  State :: string
  Tag :: string
  ExpireTime :: string
  PublicIp :: string
  PrivateIp :: string

text \<open>
  \<open>strings.HasPrefix(s, prefix)\<close> of the Go standard library:
  \<open>len(s) >= len(prefix) && s[:len(prefix)] == prefix\<close>.
\<close>

definition HasPrefix :: "string \<Rightarrow> string \<Rightarrow> bool" where
  "HasPrefix s p \<longleftrightarrow> length p \<le> length s \<and> take (length p) s = p"

text \<open>\<open>isDefaultMachine\<close>, lines 134 to 148: two nested tests, then a conjunction.\<close>

definition isDefaultMachine :: "Machine \<Rightarrow> bool" where
  "isDefaultMachine machine =
     (if PublicIp machine = '''' \<and> PrivateIp machine = '''' then
        (if HasPrefix (Name machine) ''machine_'' \<and>
            HasPrefix (DisplayName machine) ''New Machine - '' then
           Provider machine = ''provider_1'' \<and>
           State machine = ''Active'' \<and>
           Tag machine = '''' \<and>
           ExpireTime machine = ''''
         else False)
      else False)"


section \<open>Collaborators of the handlers\<close>

text \<open>
  A Go \<open>error\<close> is \<open>nil\<close> or carries a message; the handlers only ever read
  \<open>err.Error()\<close>. A Go result \<open>(v, err)\<close> is a pair: both components exist whatever
  \<open>err\<close> is.
\<close>

type_synonym error = "string option"

text \<open>
  The request: \<open>c.Input().Get(key)\<close> gives the empty string for an absent parameter;
  \<open>c.Ctx.Input.RequestBody\<close> is the raw body.
\<close>

record request =
  Input :: "string \<Rightarrow> string"
  RequestBody :: string

text \<open>The two numbers the handler asks of the paginator: \<open>Offset()\<close> and \<open>Nums()\<close>.\<close>

record paginator =
  Offset :: int
  Nums :: int

text \<open>
  Every call a handler makes into package \<open>object\<close> (store, cloud synchronization,
  masking, and the method \<open>IsDefault\<close>) is recorded, in order, with its arguments.
\<close>

datatype call =
    CallGetMachines string
  | CallIsDefault Machine
  | CallSyncMachinesCloud string
  | CallGetMaskedMachines "Machine list" error
  | CallGetMachineCount string string string
  | CallGetPaginationMachines string int int string string string string
  | CallGetMachine string
  | CallGetMaskedMachine Machine "error list"
  | CallUpdateMachine string Machine
  | CallAddMachine Machine
  | CallDeleteMachine Machine

fun is_sync :: "call \<Rightarrow> bool" where
  "is_sync (CallSyncMachinesCloud _) = True"
| "is_sync _ = False"

fun is_mask :: "call \<Rightarrow> bool" where
  "is_mask (CallGetMaskedMachines _ _) = True"
| "is_mask (CallGetMaskedMachine _ _) = True"
| "is_mask _ = False"

fun is_classify :: "call \<Rightarrow> bool" where
  "is_classify (CallIsDefault _) = True"
| "is_classify _ = False"

fun is_read :: "call \<Rightarrow> bool" where
  "is_read (CallGetMachines _) = True"
| "is_read (CallGetMachineCount _ _ _) = True"
| "is_read (CallGetPaginationMachines _ _ _ _ _ _ _) = True"
| "is_read (CallGetMachine _) = True"
| "is_read _ = False"

fun is_write :: "call \<Rightarrow> bool" where
  "is_write (CallUpdateMachine _ _) = True"
| "is_write (CallAddMachine _) = True"
| "is_write (CallDeleteMachine _) = True"
| "is_write _ = False"

text \<open>
  What a handler answers. \<open>c.ResponseOk(data...)\<close> is variadic; \<open>ServeJSON\<close> is
  \<open>c.Data["json"] = ...; c.ServeJSON()\<close>; \<open>Panic\<close> is a panic raised under the
  handler, which it does not recover.
\<close>

datatype data = Machines "Machine list" | OneMachine Machine | Num int

datatype 'j response = ResponseError string | ResponseOk "data list" | ServeJSON 'j | Panic

text \<open>
  The functions the handlers call and this file does not define. They are parameters:
  \<open>'st\<close> is the state of the store, \<open>'a\<close> the first result of a store write, \<open>'j\<close> the
  value built by \<open>wrapActionResponse\<close>.
  \<^item> Store reads are functions of the store; \<open>object.SyncMachinesCloud\<close> and the three writes
    also return the new store. The first result of the synchronization is discarded by both
    handlers (\<open>_, err :=\<close>) and is left out.
  \<^item> \<open>object.GetMachine\<close> yields a record together with its error, following the store
    interface, where an absent id is an error.
  \<^item> \<open>object.GetMaskedMachine\<close> is called once with a machine alone and once with
    the forwarded pair of \<open>object.GetMachine\<close>, so its errors are variadic: a list.
  \<^item> \<open>util.ParseInt\<close> returns one \<open>int\<close> and no error (line 74), so it can refuse a string
    only by a panic: \<open>None\<close>.
  \<^item> \<open>pagination.SetPaginator\<close> is given \<open>c.Ctx\<close>, hence the whole request.
\<close>

record ('st, 'a, 'j) env =
  object_GetMachines :: "string \<Rightarrow> 'st \<Rightarrow> Machine list \<times> error"
  object_GetMachineCount :: "string \<Rightarrow> string \<Rightarrow> string \<Rightarrow> 'st \<Rightarrow> int \<times> error"
  object_GetPaginationMachines ::
    "string \<Rightarrow> int \<Rightarrow> int \<Rightarrow> string \<Rightarrow> string \<Rightarrow> string \<Rightarrow> string \<Rightarrow> 'st \<Rightarrow> Machine list \<times> error"
  object_GetMachine :: "string \<Rightarrow> 'st \<Rightarrow> Machine \<times> error"
  object_SyncMachinesCloud :: "string \<Rightarrow> 'st \<Rightarrow> error \<times> 'st"
  object_GetMaskedMachines :: "Machine list \<times> error \<Rightarrow> Machine list \<times> error"
  object_GetMaskedMachine :: "Machine \<Rightarrow> error list \<Rightarrow> Machine \<times> error"
  IsDefault :: "Machine \<Rightarrow> bool"
  object_UpdateMachine :: "string \<Rightarrow> Machine \<Rightarrow> 'st \<Rightarrow> ('a \<times> error) \<times> 'st"
  object_AddMachine :: "Machine \<Rightarrow> 'st \<Rightarrow> ('a \<times> error) \<times> 'st"
  object_DeleteMachine :: "Machine \<Rightarrow> 'st \<Rightarrow> ('a \<times> error) \<times> 'st"
  util_ParseInt :: "string \<Rightarrow> int option"
  util_GetOwnerAndNameFromId :: "string \<Rightarrow> string \<times> string"
  pagination_SetPaginator :: "request \<Rightarrow> int \<Rightarrow> int \<Rightarrow> paginator"
  json_Unmarshal :: "string \<Rightarrow> Machine \<times> error"
  wrapActionResponse :: "'a \<times> error \<Rightarrow> 'j"

section \<open>The read handlers\<close>

text \<open>
  Lines 49 to 55 of \<open>GetMachines\<close>: the loop stops at the first machine that is not
  default. The result is \<open>hasNonDefaultMachine\<close> and the calls made.
\<close>

fun hasNonDefaultMachine_loop :: "('st, 'a, 'j) env \<Rightarrow> Machine list \<Rightarrow> bool \<times> call list" where
  "hasNonDefaultMachine_loop E [] = (False, [])"
| "hasNonDefaultMachine_loop E (machine # machines) =
     (if \<not> IsDefault E machine then (True, [CallIsDefault machine])
      else (case hasNonDefaultMachine_loop E machines of
              (b, t) \<Rightarrow> (b, CallIsDefault machine # t)))"

text \<open>
  Lines 65 to 89 of \<open>GetMachines\<close>: the answer, computed on the store \<open>s\<close> that the
  first part leaves. Nothing here changes the store.
\<close>

definition GetMachines_answer ::
  "('st, 'a, 'j) env \<Rightarrow> request \<Rightarrow> 'st \<Rightarrow> 'j response \<times> call list" where
  "GetMachines_answer E c s =
     (let owner = Input c ''owner'';
          limit = Input c ''pageSize'';
          page = Input c ''p'';
          field = Input c ''field'';
          value = Input c ''value'';
          sortField = Input c ''sortField'';
          sortOrder = Input c ''sortOrder''
      in
      if limit = '''' \<or> page = '''' then
        (let fetched = object_GetMachines E owner s;
             t = [CallGetMachines owner, CallGetMaskedMachines (fst fetched) (snd fetched)]
         in case object_GetMaskedMachines E fetched of
              (machines, Some e) \<Rightarrow> (ResponseError e, t)
            | (machines, None) \<Rightarrow> (ResponseOk [Machines machines], t))
      else
        (case util_ParseInt E limit of
           None \<Rightarrow> (Panic, [])
         | Some limit' \<Rightarrow>
            (case object_GetMachineCount E owner field value s of
               (count, Some e) \<Rightarrow> (ResponseError e, [CallGetMachineCount owner field value])
             | (count, None) \<Rightarrow>
                (let paginator = pagination_SetPaginator E c limit' count;
                     fetched = object_GetPaginationMachines E owner (Offset paginator) limit'
                                 field value sortField sortOrder s;
                     t = [CallGetMachineCount owner field value,
                          CallGetPaginationMachines owner (Offset paginator) limit'
                            field value sortField sortOrder,
                          CallGetMaskedMachines (fst fetched) (snd fetched)]
                 in case object_GetMaskedMachines E fetched of
                      (machines, Some e) \<Rightarrow> (ResponseError e, t)
                    | (machines, None) \<Rightarrow>
                        (ResponseOk [Machines machines, Num (Nums paginator)], t)))))"

text \<open>
  \<open>GetMachines\<close>, lines 34 to 90: the answer, the store afterwards and the calls made.
\<close>

definition GetMachines ::
  "('st, 'a, 'j) env \<Rightarrow> request \<Rightarrow> 'st \<Rightarrow> 'j response \<times> 'st \<times> call list" where
  "GetMachines E c s =
     (let owner = Input c ''owner'' in
      case object_GetMachines E owner s of
        (machines, Some e) \<Rightarrow> (ResponseError e, s, [CallGetMachines owner])
      | (machines, None) \<Rightarrow>
         (case hasNonDefaultMachine_loop E machines of
            (hasNonDefaultMachine, t) \<Rightarrow>
              if hasNonDefaultMachine then
                (case object_SyncMachinesCloud E owner s of
                   (Some e, s') \<Rightarrow>
                     (ResponseError e, s',
                      CallGetMachines owner # t @ [CallSyncMachinesCloud owner])
                 | (None, s') \<Rightarrow>
                     (case GetMachines_answer E c s' of
                        (r, t') \<Rightarrow>
                          (r, s', CallGetMachines owner # t @ CallSyncMachinesCloud owner # t')))
              else
                (case GetMachines_answer E c s of
                   (r, t') \<Rightarrow> (r, s, CallGetMachines owner # t @ t'))))"

text \<open>\<open>GetMachine\<close>, lines 99 to 132.\<close>

definition GetMachine ::
  "('st, 'a, 'j) env \<Rightarrow> request \<Rightarrow> 'st \<Rightarrow> 'j response \<times> 'st \<times> call list" where
  "GetMachine E c s =
     (let id = Input c ''id'' in
      case object_GetMachine E id s of
        (machine, Some e) \<Rightarrow> (ResponseError e, s, [CallGetMachine id])
      | (machine, None) \<Rightarrow>
         if IsDefault E machine then
           (let t = [CallGetMachine id, CallIsDefault machine, CallGetMaskedMachine machine []]
            in case object_GetMaskedMachine E machine [] of
                 (maskedMachine, Some e) \<Rightarrow> (ResponseError e, s, t)
               | (maskedMachine, None) \<Rightarrow> (ResponseOk [OneMachine maskedMachine], s, t))
         else
           (let owner = fst (util_GetOwnerAndNameFromId E id) in
            case object_SyncMachinesCloud E owner s of
              (Some e, s') \<Rightarrow>
                (ResponseError e, s',
                 [CallGetMachine id, CallIsDefault machine, CallSyncMachinesCloud owner])
            | (None, s') \<Rightarrow>
               (let fetched = object_GetMachine E id s';
                    t = [CallGetMachine id, CallIsDefault machine, CallSyncMachinesCloud owner,
                         CallGetMachine id, CallGetMaskedMachine (fst fetched) [snd fetched]]
                in case object_GetMaskedMachine E (fst fetched) [snd fetched] of
                     (machine, Some e) \<Rightarrow> (ResponseError e, s', t)
                   | (machine, None) \<Rightarrow> (ResponseOk [OneMachine machine], s', t))))"

section \<open>The write handlers\<close>

text \<open>\<open>UpdateMachine\<close>, lines 158 to 170.\<close>

definition UpdateMachine ::
  "('st, 'a, 'j) env \<Rightarrow> request \<Rightarrow> 'st \<Rightarrow> 'j response \<times> 'st \<times> call list" where
  "UpdateMachine E c s =
     (let id = Input c ''id'' in
      case json_Unmarshal E (RequestBody c) of
        (machine, Some e) \<Rightarrow> (ResponseError e, s, [])
      | (machine, None) \<Rightarrow>
         (case object_UpdateMachine E id machine s of
            (r, s') \<Rightarrow> (ServeJSON (wrapActionResponse E r), s', [CallUpdateMachine id machine])))"

text \<open>\<open>AddMachine\<close>, lines 179 to 189.\<close>

definition AddMachine ::
  "('st, 'a, 'j) env \<Rightarrow> request \<Rightarrow> 'st \<Rightarrow> 'j response \<times> 'st \<times> call list" where
  "AddMachine E c s =
     (case json_Unmarshal E (RequestBody c) of
        (machine, Some e) \<Rightarrow> (ResponseError e, s, [])
      | (machine, None) \<Rightarrow>
         (case object_AddMachine E machine s of
            (r, s') \<Rightarrow> (ServeJSON (wrapActionResponse E r), s', [CallAddMachine machine])))"

text \<open>\<open>DeleteMachine\<close>, lines 198 to 208.\<close>

definition DeleteMachine ::
  "('st, 'a, 'j) env \<Rightarrow> request \<Rightarrow> 'st \<Rightarrow> 'j response \<times> 'st \<times> call list" where
  "DeleteMachine E c s =
     (case json_Unmarshal E (RequestBody c) of
        (machine, Some e) \<Rightarrow> (ResponseError e, s, [])
      | (machine, None) \<Rightarrow>
         (case object_DeleteMachine E machine s of
            (r, s') \<Rightarrow> (ServeJSON (wrapActionResponse E r), s', [CallDeleteMachine machine])))"

section \<open>The specification's reading of the collaborators\<close>

text \<open>
  The Sync Coordinator as the specification words it (section 4.2): load all machines of
  the owner; if the set is empty or every record is default, skip the synchronization;
  otherwise invoke the cloud reconciliation for that owner once and propagate its error.
  The result is \<open>(refreshed, err)\<close> and the store afterwards. It is compared below with
  lines 43 to 63 of \<open>GetMachines\<close>.
\<close>

definition SyncIfNeeded ::
  "('st, 'a, 'j) env \<Rightarrow> string \<Rightarrow> 'st \<Rightarrow> (bool \<times> error) \<times> 'st" where
  "SyncIfNeeded E owner s =
     (case object_GetMachines E owner s of
        (machines, Some e) \<Rightarrow> ((False, Some e), s)
      | (machines, None) \<Rightarrow>
         if list_all (IsDefault E) machines then ((False, None), s)
         else (case object_SyncMachinesCloud E owner s of
                 (err, s') \<Rightarrow> ((err = None, err), s')))"

text \<open>
  Modelled from the spec: the slice that the store's page query
  (\<open>object.GetPaginationMachines\<close>, \<open>ListMachinesPage\<close> in section 6, not in this file)
  returns out of the records matching owner, field and value, taken in the requested
  order: \<open>limit\<close> records from position \<open>offset\<close> on.
\<close>

definition page_of :: "Machine list \<Rightarrow> int \<Rightarrow> int \<Rightarrow> Machine list" where
  "page_of matching offset limit = take (nat limit) (drop (nat offset) matching)"

text \<open>
  Modelled from the spec: the syntax that \<open>util.ParseInt\<close> (not in this file) accepts,
  an optional sign followed by decimal digits; anything else is a non-numeric value.
\<close>

definition is_digit :: "char \<Rightarrow> bool" where
  "is_digit ch \<longleftrightarrow> ch \<in> set ''0123456789''"

definition numeric :: "string \<Rightarrow> bool" where
  "numeric str =
     (case str of
        [] \<Rightarrow> False
      | ch # rest \<Rightarrow>
          if ch = CHR ''-'' \<or> ch = CHR ''+'' then rest \<noteq> [] \<and> list_all is_digit rest
          else list_all is_digit str)"

section \<open>A small installation, for evaluating the handlers\<close>

text \<open>
  The store is a list of machines; a write reports whether a row was affected; the action
  response is a line of text. The machines are those of the specification's scenario: one
  placeholder and one machine with a public address, both of owner \<open>alice\<close>.
\<close>

definition machine_zero :: Machine where
  "machine_zero =
     \<lparr>Owner = '''', Name = '''', DisplayName = '''', Provider = '''', State = '''',
      Tag = '''', ExpireTime = '''', PublicIp = '''', PrivateIp = ''''\<rparr>"

definition demo_default :: Machine where
  "demo_default =
     \<lparr>Owner = ''alice'', Name = ''machine_1'', DisplayName = ''New Machine - x'',
      Provider = ''provider_1'', State = ''Active'',
      Tag = '''', ExpireTime = '''', PublicIp = '''', PrivateIp = ''''\<rparr>"

definition demo_real :: Machine where
  "demo_real =
     \<lparr>Owner = ''alice'', Name = ''web1'', DisplayName = ''Web server'',
      Provider = ''provider_1'', State = ''Active'',
      Tag = '''', ExpireTime = '''', PublicIp = ''1.2.3.4'', PrivateIp = ''10.0.0.5''\<rparr>"

definition demo_store :: "Machine list" where
  "demo_store = [demo_default, demo_real]"

definition demo_id :: "Machine \<Rightarrow> string" where
  "demo_id m = Owner m @ ''/'' @ Name m"

definition demo_matching :: "string \<Rightarrow> string \<Rightarrow> string \<Rightarrow> Machine \<Rightarrow> bool" where
  "demo_matching owner field v m \<longleftrightarrow>
     Owner m = owner \<and>
     (if field = ''provider'' then Provider m = v
      else if field = ''state'' then State m = v
      else True)"

definition demo_mask :: "Machine \<Rightarrow> Machine" where
  "demo_mask m = (if PrivateIp m = '''' then m else m\<lparr>PrivateIp := ''***''\<rparr>)"

definition demo_refresh :: "string \<Rightarrow> Machine \<Rightarrow> Machine" where
  "demo_refresh owner m =
     (if Owner m = owner \<and> \<not> isDefaultMachine m then m\<lparr>State := ''Running''\<rparr> else m)"

fun digits_value :: "string \<Rightarrow> nat \<Rightarrow> nat" where
  "digits_value [] acc = acc"
| "digits_value (ch # rest) acc =
     digits_value rest (10 * acc + length (takeWhile (\<lambda>d. d \<noteq> ch) ''0123456789''))"

definition demo_ParseInt :: "string \<Rightarrow> int option" where
  "demo_ParseInt str =
     (if \<not> numeric str then None
      else if hd str = CHR ''-'' then Some (- int (digits_value (tl str) 0))
      else if hd str = CHR ''+'' then Some (int (digits_value (tl str) 0))
      else Some (int (digits_value str 0)))"

text \<open>
  A paginator in the manner of the pagination utility: the page is read from parameter
  \<open>p\<close>, kept between 1 and the number of pages, and \<open>Nums\<close> is the count it was given.
\<close>

definition demo_SetPaginator :: "request \<Rightarrow> int \<Rightarrow> int \<Rightarrow> paginator" where
  "demo_SetPaginator c per nums =
     (let per' = (if per \<le> 0 then 10 else per);
          pageNums = (nums + per' - 1) div per';
          p = (case demo_ParseInt (Input c ''p'') of Some n \<Rightarrow> n | None \<Rightarrow> 0);
          p' = (if p > pageNums then pageNums else p);
          page = (if p' \<le> 0 then 1 else p')
      in \<lparr>Offset = (page - 1) * per', Nums = nums\<rparr>)"

definition demo_Unmarshal :: "string \<Rightarrow> Machine \<times> error" where
  "demo_Unmarshal body =
     (if body \<noteq> [] \<and> hd body = CHR ''{'' \<and> last body = CHR ''}''
      then (machine_zero\<lparr>Owner := ''alice'', Name := butlast (tl body)\<rparr>, None)
      else (machine_zero, Some ''unexpected end of JSON input''))"

definition demo_wrap :: "bool \<times> error \<Rightarrow> string" where
  "demo_wrap r =
     (case snd r of
        Some e \<Rightarrow> ''error: '' @ e
      | None \<Rightarrow> if fst r then ''Affected'' else ''Unaffected'')"

definition demo_env :: "(Machine list, bool, string) env" where
  "demo_env =
     \<lparr>object_GetMachines = (\<lambda>owner s. (filter (\<lambda>m. Owner m = owner) s, None)),
      object_GetMachineCount =
        (\<lambda>owner field v s. (int (length (filter (demo_matching owner field v) s)), None)),
      object_GetPaginationMachines =
        (\<lambda>owner offset limit field v sortField sortOrder s.
           (page_of (filter (demo_matching owner field v) s) offset limit, None)),
      object_GetMachine =
        (\<lambda>id s. case filter (\<lambda>m. demo_id m = id) s of
                   [] \<Rightarrow> (machine_zero, Some ''machine not found'')
                 | m # _ \<Rightarrow> (m, None)),
      object_SyncMachinesCloud = (\<lambda>owner s. (None, map (demo_refresh owner) s)),
      object_GetMaskedMachines =
        (\<lambda>r. case snd r of Some e \<Rightarrow> ([], Some e) | None \<Rightarrow> (map demo_mask (fst r), None)),
      object_GetMaskedMachine =
        (\<lambda>m errs. case errs of
                     Some e # _ \<Rightarrow> (machine_zero, Some e)
                   | _ \<Rightarrow> (demo_mask m, None)),
      IsDefault = isDefaultMachine,
      object_UpdateMachine =
        (\<lambda>id m s. ((list_ex (\<lambda>x. demo_id x = id) s, None),
                    map (\<lambda>x. if demo_id x = id then m else x) s)),
      object_AddMachine = (\<lambda>m s. ((True, None), s @ [m])),
      object_DeleteMachine =
        (\<lambda>m s. ((list_ex (\<lambda>x. demo_id x = demo_id m) s, None),
                 filter (\<lambda>x. demo_id x \<noteq> demo_id m) s)),
      util_ParseInt = demo_ParseInt,
      util_GetOwnerAndNameFromId =
        (\<lambda>id. (takeWhile (\<lambda>ch. ch \<noteq> CHR ''/'') id,
                drop 1 (dropWhile (\<lambda>ch. ch \<noteq> CHR ''/'') id))),
      pagination_SetPaginator = demo_SetPaginator,
      json_Unmarshal = demo_Unmarshal,
      wrapActionResponse = demo_wrap\<rparr>"

text \<open>The same installation with the cloud out of reach, and with the store failing.\<close>

definition demo_env_cloud_down :: "(Machine list, bool, string) env" where
  "demo_env_cloud_down =
     demo_env\<lparr>object_SyncMachinesCloud := (\<lambda>owner s. (Some ''cloud unreachable'', s))\<rparr>"

definition demo_env_store_down :: "(Machine list, bool, string) env" where
  "demo_env_store_down =
     demo_env\<lparr>object_GetMachines := (\<lambda>owner s. ([], Some ''database is locked''))\<rparr>"

definition demo_request :: "(string \<times> string) list \<Rightarrow> string \<Rightarrow> request" where
  "demo_request params body =
     \<lparr>Input = (\<lambda>key. case map_of params key of Some v \<Rightarrow> v | None \<Rightarrow> ''''),
      RequestBody = body\<rparr>"

section \<open>Evaluating the installation\<close>

text \<open>The fields of the installation, for evaluating a handler without unfolding it.\<close>

lemma demo_env_fields:
  "object_GetMachines demo_env =
     (\<lambda>owner s. (filter (\<lambda>m. Owner m = owner) s, None))"
  "object_GetMachineCount demo_env =
     (\<lambda>owner field v s. (int (length (filter (demo_matching owner field v) s)), None))"
  "object_GetPaginationMachines demo_env =
     (\<lambda>owner offset limit field v sortField sortOrder s.
        (page_of (filter (demo_matching owner field v) s) offset limit, None))"
  "object_GetMachine demo_env =
     (\<lambda>id s. case filter (\<lambda>m. demo_id m = id) s of
                [] \<Rightarrow> (machine_zero, Some ''machine not found'')
              | m # _ \<Rightarrow> (m, None))"
  "object_SyncMachinesCloud demo_env =
     (\<lambda>owner s. (None, map (demo_refresh owner) s))"
  "object_GetMaskedMachines demo_env =
     (\<lambda>r. case snd r of Some e \<Rightarrow> ([], Some e) | None \<Rightarrow> (map demo_mask (fst r), None))"
  "object_GetMaskedMachine demo_env =
     (\<lambda>m errs. case errs of
                  Some e # _ \<Rightarrow> (machine_zero, Some e)
                | _ \<Rightarrow> (demo_mask m, None))"
  "IsDefault demo_env =
     isDefaultMachine"
  "object_UpdateMachine demo_env =
     (\<lambda>id m s. ((list_ex (\<lambda>x. demo_id x = id) s, None),
                 map (\<lambda>x. if demo_id x = id then m else x) s))"
  "object_AddMachine demo_env =
     (\<lambda>m s. ((True, None), s @ [m]))"
  "object_DeleteMachine demo_env =
     (\<lambda>m s. ((list_ex (\<lambda>x. demo_id x = demo_id m) s, None),
              filter (\<lambda>x. demo_id x \<noteq> demo_id m) s))"
  "util_ParseInt demo_env =
     demo_ParseInt"
  "util_GetOwnerAndNameFromId demo_env =
     (\<lambda>id. (takeWhile (\<lambda>ch. ch \<noteq> CHR ''/'') id,
             drop 1 (dropWhile (\<lambda>ch. ch \<noteq> CHR ''/'') id)))"
  "pagination_SetPaginator demo_env =
     demo_SetPaginator"
  "json_Unmarshal demo_env =
     demo_Unmarshal"
  "wrapActionResponse demo_env =
     demo_wrap"
  by (simp_all add: demo_env_def)

lemma demo_env_cloud_down_fields:
  "object_GetMachines demo_env_cloud_down = object_GetMachines demo_env"
  "object_GetMachineCount demo_env_cloud_down = object_GetMachineCount demo_env"
  "object_GetPaginationMachines demo_env_cloud_down = object_GetPaginationMachines demo_env"
  "object_GetMachine demo_env_cloud_down = object_GetMachine demo_env"
  "object_SyncMachinesCloud demo_env_cloud_down = (\<lambda>owner s. (Some ''cloud unreachable'', s))"
  "object_GetMaskedMachines demo_env_cloud_down = object_GetMaskedMachines demo_env"
  "object_GetMaskedMachine demo_env_cloud_down = object_GetMaskedMachine demo_env"
  "IsDefault demo_env_cloud_down = IsDefault demo_env"
  "object_UpdateMachine demo_env_cloud_down = object_UpdateMachine demo_env"
  "object_AddMachine demo_env_cloud_down = object_AddMachine demo_env"
  "object_DeleteMachine demo_env_cloud_down = object_DeleteMachine demo_env"
  "util_ParseInt demo_env_cloud_down = util_ParseInt demo_env"
  "util_GetOwnerAndNameFromId demo_env_cloud_down = util_GetOwnerAndNameFromId demo_env"
  "pagination_SetPaginator demo_env_cloud_down = pagination_SetPaginator demo_env"
  "json_Unmarshal demo_env_cloud_down = json_Unmarshal demo_env"
  "wrapActionResponse demo_env_cloud_down = wrapActionResponse demo_env"
  by (simp_all add: demo_env_cloud_down_def)

lemma demo_env_store_down_fields:
  "object_GetMachines demo_env_store_down = (\<lambda>owner s. ([], Some ''database is locked''))"
  "object_GetMachineCount demo_env_store_down = object_GetMachineCount demo_env"
  "object_GetPaginationMachines demo_env_store_down = object_GetPaginationMachines demo_env"
  "object_GetMachine demo_env_store_down = object_GetMachine demo_env"
  "object_SyncMachinesCloud demo_env_store_down = object_SyncMachinesCloud demo_env"
  "object_GetMaskedMachines demo_env_store_down = object_GetMaskedMachines demo_env"
  "object_GetMaskedMachine demo_env_store_down = object_GetMaskedMachine demo_env"
  "IsDefault demo_env_store_down = IsDefault demo_env"
  "object_UpdateMachine demo_env_store_down = object_UpdateMachine demo_env"
  "object_AddMachine demo_env_store_down = object_AddMachine demo_env"
  "object_DeleteMachine demo_env_store_down = object_DeleteMachine demo_env"
  "util_ParseInt demo_env_store_down = util_ParseInt demo_env"
  "util_GetOwnerAndNameFromId demo_env_store_down = util_GetOwnerAndNameFromId demo_env"
  "pagination_SetPaginator demo_env_store_down = pagination_SetPaginator demo_env"
  "json_Unmarshal demo_env_store_down = json_Unmarshal demo_env"
  "wrapActionResponse demo_env_store_down = wrapActionResponse demo_env"
  by (simp_all add: demo_env_store_down_def)

lemma demo_request_fields:
  "Input (demo_request params body) key = (case map_of params key of Some v \<Rightarrow> v | None \<Rightarrow> [])"
  "RequestBody (demo_request params body) = body"
  by (simp_all add: demo_request_def)

lemmas demo_simps =
  demo_env_fields demo_env_cloud_down_fields demo_env_store_down_fields demo_request_fields
  demo_store_def demo_default_def demo_real_def machine_zero_def demo_mask_def
  demo_refresh_def demo_id_def demo_matching_def demo_wrap_def demo_Unmarshal_def
  demo_SetPaginator_def demo_ParseInt_def numeric_def is_digit_def page_of_def
  isDefaultMachine_def HasPrefix_def

section \<open>The default classifier\<close>

lemma HasPrefix_prefix: "HasPrefix s p \<longleftrightarrow> prefix p s"
proof
  assume "HasPrefix s p"
  then have "take (length p) s = p"
    by (simp add: HasPrefix_def)
  then show "prefix p s"
    by (metis take_is_prefix)
next
  assume "prefix p s"
  then obtain t where "s = p @ t"
    by (auto simp: prefix_def)
  then show "HasPrefix s p"
    by (simp add: HasPrefix_def)
qed

lemma isDefaultMachine_iff:
  "isDefaultMachine m \<longleftrightarrow>
     PublicIp m = '''' \<and> PrivateIp m = '''' \<and>
     prefix ''machine_'' (Name m) \<and> prefix ''New Machine - '' (DisplayName m) \<and>
     Provider m = ''provider_1'' \<and> State m = ''Active'' \<and>
     Tag m = '''' \<and> ExpireTime m = ''''"
  unfolding isDefaultMachine_def HasPrefix_prefix by auto

text \<open>
  Claim C1. \<open>isDefaultMachine\<close> is true exactly when the eight conditions hold together:
  both IP fields empty, the name starting with \<open>machine_\<close>, the display name starting with
  \<open>New Machine - \<close>, provider \<open>provider_1\<close>, state \<open>Active\<close>, tag empty, expiry empty.
  Starting from a default machine, replacing any single field by a value that breaks its
  condition gives a machine that is not default.
\<close>

theorem isDefaultMachine_conditions:
  "(isDefaultMachine m \<longleftrightarrow>
      PublicIp m = '''' \<and> PrivateIp m = '''' \<and>
      prefix ''machine_'' (Name m) \<and> prefix ''New Machine - '' (DisplayName m) \<and>
      Provider m = ''provider_1'' \<and> State m = ''Active'' \<and>
      Tag m = '''' \<and> ExpireTime m = '''') \<and>
   (isDefaultMachine m \<longrightarrow>
      (v \<noteq> '''' \<longrightarrow> \<not> isDefaultMachine (m\<lparr>PublicIp := v\<rparr>)) \<and>
      (v \<noteq> '''' \<longrightarrow> \<not> isDefaultMachine (m\<lparr>PrivateIp := v\<rparr>)) \<and>
      (\<not> prefix ''machine_'' v \<longrightarrow> \<not> isDefaultMachine (m\<lparr>Name := v\<rparr>)) \<and>
      (\<not> prefix ''New Machine - '' v \<longrightarrow> \<not> isDefaultMachine (m\<lparr>DisplayName := v\<rparr>)) \<and>
      (v \<noteq> ''provider_1'' \<longrightarrow> \<not> isDefaultMachine (m\<lparr>Provider := v\<rparr>)) \<and>
      (v \<noteq> ''Active'' \<longrightarrow> \<not> isDefaultMachine (m\<lparr>State := v\<rparr>)) \<and>
      (v \<noteq> '''' \<longrightarrow> \<not> isDefaultMachine (m\<lparr>Tag := v\<rparr>)) \<and>
      (v \<noteq> '''' \<longrightarrow> \<not> isDefaultMachine (m\<lparr>ExpireTime := v\<rparr>)))"
  by (simp add: isDefaultMachine_iff)

theorem isDefaultMachine_conditions_witness:
  "isDefaultMachine demo_default \<and>
   \<not> isDefaultMachine (demo_default\<lparr>PublicIp := ''1.2.3.4''\<rparr>) \<and>
   \<not> isDefaultMachine (demo_default\<lparr>Name := ''web1''\<rparr>) \<and>
   \<not> isDefaultMachine (demo_default\<lparr>State := ''Stopped''\<rparr>) \<and>
   \<not> isDefaultMachine (demo_default\<lparr>Tag := ''prod''\<rparr>)"
  using isDefaultMachine_conditions [of demo_default "''1.2.3.4''"]
    isDefaultMachine_conditions [of demo_default "''web1''"]
    isDefaultMachine_conditions [of demo_default "''Stopped''"]
    isDefaultMachine_conditions [of demo_default "''prod''"]
  by (simp add: demo_default_def)

section \<open>The scope-wide synchronization gate\<close>

lemma loop_fst:
  "fst (hasNonDefaultMachine_loop E ms) \<longleftrightarrow> (\<exists>m\<in>set ms. \<not> IsDefault E m)"
  by (induction ms) (auto split: prod.splits)

lemma loop_all_default:
  "fst (hasNonDefaultMachine_loop E ms) \<longleftrightarrow> \<not> list_all (IsDefault E) ms"
  by (simp add: loop_fst list_all_iff)

lemma loop_classify:
  "ev \<in> set (snd (hasNonDefaultMachine_loop E ms)) \<Longrightarrow> is_classify ev"
  by (induction ms arbitrary: ev) (auto split: prod.splits if_splits)

lemma loop_no_sync: "filter is_sync (snd (hasNonDefaultMachine_loop E ms)) = []"
  by (induction ms) (auto split: prod.splits)

lemma answer_no_sync: "filter is_sync (snd (GetMachines_answer E c s)) = []"
  by (auto simp: GetMachines_answer_def Let_def split: prod.splits option.splits)

text \<open>
  Lines 43 to 63 of \<open>GetMachines\<close> are the Sync Coordinator of the specification: when it
  reports no error the answer is computed on the store it leaves, and when it reports an
  error that error is the answer.
\<close>

lemma GetMachines_refines:
  assumes "SyncIfNeeded E (Input c ''owner'') s = ((refreshed, None), s')"
  shows "GetMachines E c s =
           (fst (GetMachines_answer E c s'), s',
            CallGetMachines (Input c ''owner'') #
            snd (hasNonDefaultMachine_loop E (fst (object_GetMachines E (Input c ''owner'') s))) @
            (if refreshed then [CallSyncMachinesCloud (Input c ''owner'')] else []) @
            snd (GetMachines_answer E c s'))"
  using assms loop_all_default [of E "fst (object_GetMachines E (Input c ''owner'') s)"]
  by (auto simp: GetMachines_def SyncIfNeeded_def Let_def
           split: prod.splits option.splits if_splits)

lemma GetMachines_aborts:
  assumes "SyncIfNeeded E (Input c ''owner'') s = ((refreshed, Some e), s')"
  shows "fst (GetMachines E c s) = ResponseError e \<and> fst (snd (GetMachines E c s)) = s'"
  using assms loop_all_default [of E "fst (object_GetMachines E (Input c ''owner'') s)"]
  by (auto simp: GetMachines_def SyncIfNeeded_def Let_def
           split: prod.splits option.splits if_splits)

lemma GetMachines_sync_calls:
  "filter is_sync (snd (snd (GetMachines E c s))) =
     (if snd (object_GetMachines E (Input c ''owner'') s) = None \<and>
         (\<exists>m \<in> set (fst (object_GetMachines E (Input c ''owner'') s)). \<not> IsDefault E m)
      then [CallSyncMachinesCloud (Input c ''owner'')] else [])"
  using loop_fst [of E "fst (object_GetMachines E (Input c ''owner'') s)"]
  by (auto simp: GetMachines_def Let_def loop_no_sync answer_no_sync case_prod_unfold
           split: option.splits)

text \<open>
  Claim C2. In the calls made by a list request, the synchronization calls are exactly one
  call for the request's owner when the owner-wide fetch succeeded and returned at least one
  machine that is not default, and none otherwise (fetch failed, nothing fetched, or every
  fetched machine default).
\<close>

theorem GetMachines_sync_once:
  "filter is_sync (snd (snd (GetMachines E c s))) =
     (if snd (object_GetMachines E (Input c ''owner'') s) = None \<and>
         (\<exists>m \<in> set (fst (object_GetMachines E (Input c ''owner'') s)). \<not> IsDefault E m)
      then [CallSyncMachinesCloud (Input c ''owner'')] else [])"
  by (rule GetMachines_sync_calls)

theorem GetMachines_sync_once_witness:
  "filter is_sync (snd (snd (GetMachines demo_env
      (demo_request [(''owner'', ''alice'')] '''') demo_store))) =
     [CallSyncMachinesCloud ''alice''] \<and>
   filter is_sync (snd (snd (GetMachines demo_env
      (demo_request [(''owner'', ''alice'')] '''') [demo_default]))) = [] \<and>
   filter is_sync (snd (snd (GetMachines demo_env
      (demo_request [(''owner'', ''bob'')] '''') demo_store))) = []"
  using GetMachines_sync_once [of demo_env "demo_request [(''owner'', ''alice'')] ''''" demo_store]
    GetMachines_sync_once [of demo_env "demo_request [(''owner'', ''alice'')] ''''" "[demo_default]"]
    GetMachines_sync_once [of demo_env "demo_request [(''owner'', ''bob'')] ''''" demo_store]
  by (simp add: demo_simps)

section \<open>Get-one\<close>

text \<open>
  Claim C3. When the record fetched for the id is default, \<open>GetMachine\<close> answers with the
  result of masking that record, leaves the store alone and makes no synchronization call.
  When it is not default, the synchronization is called exactly once, for the owner part of
  the id (the record's owner, when the record carries the owner of its id); if it succeeds,
  the record is fetched again from the store the synchronization left, masked, and returned,
  in that order.
\<close>

theorem GetMachine_sync:
  assumes "object_GetMachine E (Input c ''id'') s = (m, None)"
  shows
   "(IsDefault E m \<longrightarrow>
       GetMachine E c s =
         ((case object_GetMaskedMachine E m [] of
             (mm, Some e) \<Rightarrow> ResponseError e
           | (mm, None) \<Rightarrow> ResponseOk [OneMachine mm]),
          s,
          [CallGetMachine (Input c ''id''), CallIsDefault m, CallGetMaskedMachine m []]) \<and>
       filter is_sync (snd (snd (GetMachine E c s))) = []) \<and>
    (\<not> IsDefault E m \<longrightarrow>
       filter is_sync (snd (snd (GetMachine E c s))) =
         [CallSyncMachinesCloud (fst (util_GetOwnerAndNameFromId E (Input c ''id'')))] \<and>
       (Owner m = fst (util_GetOwnerAndNameFromId E (Input c ''id'')) \<longrightarrow>
          filter is_sync (snd (snd (GetMachine E c s))) = [CallSyncMachinesCloud (Owner m)]) \<and>
       (\<forall>s'. object_SyncMachinesCloud E (fst (util_GetOwnerAndNameFromId E (Input c ''id''))) s
               = (None, s') \<longrightarrow>
          GetMachine E c s =
            ((case object_GetMaskedMachine E (fst (object_GetMachine E (Input c ''id'') s'))
                     [snd (object_GetMachine E (Input c ''id'') s')] of
                (mm, Some e) \<Rightarrow> ResponseError e
              | (mm, None) \<Rightarrow> ResponseOk [OneMachine mm]),
             s',
             [CallGetMachine (Input c ''id''), CallIsDefault m,
              CallSyncMachinesCloud (fst (util_GetOwnerAndNameFromId E (Input c ''id''))),
              CallGetMachine (Input c ''id''),
              CallGetMaskedMachine (fst (object_GetMachine E (Input c ''id'') s'))
                [snd (object_GetMachine E (Input c ''id'') s')]])))"
  using assms
  by (auto simp: GetMachine_def Let_def split: prod.splits option.splits)

theorem GetMachine_sync_witness:
  "GetMachine demo_env (demo_request [(''id'', ''alice/machine_1'')] '''') demo_store =
     (ResponseOk [OneMachine demo_default], demo_store,
      [CallGetMachine ''alice/machine_1'', CallIsDefault demo_default,
       CallGetMaskedMachine demo_default []]) \<and>
   GetMachine demo_env (demo_request [(''id'', ''alice/web1'')] '''') demo_store =
     (ResponseOk [OneMachine (demo_real\<lparr>State := ''Running'', PrivateIp := ''***''\<rparr>)],
      [demo_default, demo_real\<lparr>State := ''Running''\<rparr>],
      [CallGetMachine ''alice/web1'', CallIsDefault demo_real,
       CallSyncMachinesCloud ''alice'', CallGetMachine ''alice/web1'',
       CallGetMaskedMachine (demo_real\<lparr>State := ''Running''\<rparr>) [None]])"
  using GetMachine_sync [of demo_env "demo_request [(''id'', ''alice/machine_1'')] ''''"
      demo_store demo_default]
    GetMachine_sync [of demo_env "demo_request [(''id'', ''alice/web1'')] ''''"
      demo_store demo_real]
  by (simp add: demo_simps)

section \<open>Synchronization failure\<close>

text \<open>
  Claim C4. When the synchronization that a read request invokes returns an error, the
  answer of \<open>GetMachines\<close> and of \<open>GetMachine\<close> is that error; it carries no machine,
  and the synchronization is the last call made: nothing is fetched again or masked.
\<close>

theorem sync_error_aborts:
  "(object_GetMachines E (Input c ''owner'') s = (ms, None) \<and>
    (\<exists>m\<in>set ms. \<not> IsDefault E m) \<and>
    object_SyncMachinesCloud E (Input c ''owner'') s = (Some e, s') \<longrightarrow>
      GetMachines E c s =
        (ResponseError e, s',
         CallGetMachines (Input c ''owner'') # snd (hasNonDefaultMachine_loop E ms) @
         [CallSyncMachinesCloud (Input c ''owner'')])) \<and>
   (object_GetMachine E (Input c ''id'') s = (m, None) \<and> \<not> IsDefault E m \<and>
    object_SyncMachinesCloud E (fst (util_GetOwnerAndNameFromId E (Input c ''id''))) s
      = (Some e, s') \<longrightarrow>
      GetMachine E c s =
        (ResponseError e, s',
         [CallGetMachine (Input c ''id''), CallIsDefault m,
          CallSyncMachinesCloud (fst (util_GetOwnerAndNameFromId E (Input c ''id'')))]))"
  using loop_fst [of E ms]
  by (auto simp: GetMachines_def GetMachine_def Let_def case_prod_unfold split: option.splits)

theorem sync_error_aborts_witness:
  "GetMachines demo_env_cloud_down
      (demo_request [(''owner'', ''alice''), (''id'', ''alice/web1'')] '''') demo_store =
     (ResponseError ''cloud unreachable'', demo_store,
      [CallGetMachines ''alice'', CallIsDefault demo_default, CallIsDefault demo_real,
       CallSyncMachinesCloud ''alice'']) \<and>
   GetMachine demo_env_cloud_down
      (demo_request [(''owner'', ''alice''), (''id'', ''alice/web1'')] '''') demo_store =
     (ResponseError ''cloud unreachable'', demo_store,
      [CallGetMachine ''alice/web1'', CallIsDefault demo_real,
       CallSyncMachinesCloud ''alice''])"
  using sync_error_aborts [of demo_env_cloud_down
      "demo_request [(''owner'', ''alice''), (''id'', ''alice/web1'')] ''''"
      demo_store demo_store "''cloud unreachable''" demo_store demo_real]
  by (simp add: demo_simps)

section \<open>Listing without pagination\<close>

text \<open>
  Claim C5. For a list request with \<open>pageSize\<close> or \<open>p\<close> empty that no error of the
  initial fetch or of the synchronization has ended: the answer is the result of masking
  the list fetched for the owner from the store that the synchronization gate leaves (the
  store after the synchronization, when one was triggered), and that store is the final one.
  The last two calls are that fetch and the masking of all it returned; the list fetched at
  line 43 serves the gate only. When the masking works record by record, the data are the
  masked records of the whole re-fetched list, as many as were fetched.
\<close>

theorem GetMachines_unpaginated:
  assumes "Input c ''pageSize'' = '''' \<or> Input c ''p'' = ''''"
      and "SyncIfNeeded E (Input c ''owner'') s = ((refreshed, None), s')"
  shows
    "fst (GetMachines E c s) =
       (case object_GetMaskedMachines E (object_GetMachines E (Input c ''owner'') s') of
          (ms, Some e) \<Rightarrow> ResponseError e
        | (ms, None) \<Rightarrow> ResponseOk [Machines ms]) \<and>
     fst (snd (GetMachines E c s)) = s' \<and>
     (\<exists>t. snd (snd (GetMachines E c s)) =
            t @ [CallGetMachines (Input c ''owner''),
                 CallGetMaskedMachines (fst (object_GetMachines E (Input c ''owner'') s'))
                   (snd (object_GetMachines E (Input c ''owner'') s'))]) \<and>
     (\<forall>ms mask.
        object_GetMachines E (Input c ''owner'') s' = (ms, None) \<longrightarrow>
        object_GetMaskedMachines E (ms, None) = (map mask ms, None) \<longrightarrow>
        fst (GetMachines E c s) = ResponseOk [Machines (map mask ms)] \<and>
        length (map mask ms) = length ms)"
proof -
  let ?owner = "Input c ''owner''"
  let ?fetched = "object_GetMachines E ?owner s'"
  have answer: "GetMachines_answer E c s' =
      ((case object_GetMaskedMachines E ?fetched of
          (ms, Some e) \<Rightarrow> ResponseError e
        | (ms, None) \<Rightarrow> ResponseOk [Machines ms]),
       [CallGetMachines ?owner, CallGetMaskedMachines (fst ?fetched) (snd ?fetched)])"
    using assms(1)
    by (auto simp: GetMachines_answer_def Let_def split: prod.splits option.splits)
  note whole = GetMachines_refines [OF assms(2)]
  have r: "fst (GetMachines E c s) =
       (case object_GetMaskedMachines E ?fetched of
          (ms, Some e) \<Rightarrow> ResponseError e
        | (ms, None) \<Rightarrow> ResponseOk [Machines ms])"
    by (simp add: whole answer)
  have st: "fst (snd (GetMachines E c s)) = s'"
    by (simp add: whole)
  have tr: "\<exists>t. snd (snd (GetMachines E c s)) =
            t @ [CallGetMachines ?owner, CallGetMaskedMachines (fst ?fetched) (snd ?fetched)]"
    by (simp add: whole answer)
  have el: "\<forall>ms mask.
        ?fetched = (ms, None) \<longrightarrow>
        object_GetMaskedMachines E (ms, None) = (map mask ms, None) \<longrightarrow>
        fst (GetMachines E c s) = ResponseOk [Machines (map mask ms)] \<and>
        length (map mask ms) = length ms"
    by (simp add: r)
  from r st tr el show ?thesis by blast
qed

theorem GetMachines_unpaginated_witness:
  "object_GetMachines demo_env ''alice'' demo_store = ([demo_default, demo_real], None) \<and>
   fst (GetMachines demo_env (demo_request [(''owner'', ''alice'')] '''') demo_store) =
     ResponseOk
       [Machines [demo_default, demo_real\<lparr>State := ''Running'', PrivateIp := ''***''\<rparr>]] \<and>
   fst (snd (GetMachines demo_env (demo_request [(''owner'', ''alice'')] '''') demo_store)) =
     [demo_default, demo_real\<lparr>State := ''Running''\<rparr>]"
proof -
  let ?c = "demo_request [(''owner'', ''alice'')] ''''"
  have p: "Input ?c ''pageSize'' = '''' \<or> Input ?c ''p'' = ''''"
    by (simp add: demo_simps)
  have g: "SyncIfNeeded demo_env (Input ?c ''owner'') demo_store =
             ((True, None), [demo_default, demo_real\<lparr>State := ''Running''\<rparr>])"
    by (simp add: SyncIfNeeded_def demo_simps)
  show ?thesis
    using GetMachines_unpaginated [OF p g]
    by (simp add: demo_simps)
qed

section \<open>Listing with pagination\<close>

lemma length_page_of:
  "length (page_of matching offset limit) = min (nat limit) (length matching - nat offset)"
  by (simp add: page_of_def min_def)

text \<open>
  Claim C6. For a list request with \<open>pageSize\<close> and \<open>p\<close> both present, limit \<open>k\<close>
  read from \<open>pageSize\<close>, not ended by an error before the listing: the data are the masking
  of the page fetched with the paginator's offset, limit \<open>k\<close>, field, value, sortField and
  sortOrder, and the second datum is the paginator's \<open>Nums\<close>. When the scope has the
  \<open>N\<close> records \<open>matching\<close>, the count is \<open>N\<close>, the paginator reports the count it was
  given, the store returns the slice \<open>page_of\<close> and the masking works record by record,
  the second datum is \<open>N\<close> and the slice has \<open>min k (N - offset)\<close> records (in natural
  numbers; as integers when \<open>0 \<le> k\<close> and \<open>0 \<le> offset \<le> N\<close>).
\<close>

theorem GetMachines_paginated:
  assumes "Input c ''pageSize'' \<noteq> ''''" and "Input c ''p'' \<noteq> ''''"
      and "util_ParseInt E (Input c ''pageSize'') = Some k"
      and "SyncIfNeeded E (Input c ''owner'') s = ((refreshed, None), s')"
      and "object_GetMachineCount E (Input c ''owner'') (Input c ''field'') (Input c ''value'') s'
             = (n, None)"
      and "pg = pagination_SetPaginator E c k n"
      and "fetched = object_GetPaginationMachines E (Input c ''owner'') (Offset pg) k
             (Input c ''field'') (Input c ''value'') (Input c ''sortField'')
             (Input c ''sortOrder'') s'"
  shows
    "fst (GetMachines E c s) =
       (case object_GetMaskedMachines E fetched of
          (ms, Some e) \<Rightarrow> ResponseError e
        | (ms, None) \<Rightarrow> ResponseOk [Machines ms, Num (Nums pg)]) \<and>
     (\<forall>matching mask.
        n = int (length matching) \<longrightarrow>
        Nums pg = n \<longrightarrow>
        fetched = (page_of matching (Offset pg) k, None) \<longrightarrow>
        object_GetMaskedMachines E fetched = (map mask (page_of matching (Offset pg) k), None) \<longrightarrow>
          fst (GetMachines E c s) =
            ResponseOk [Machines (map mask (page_of matching (Offset pg) k)),
                        Num (int (length matching))] \<and>
          length (map mask (page_of matching (Offset pg) k)) =
            min (nat k) (length matching - nat (Offset pg)) \<and>
          (0 \<le> k \<and> 0 \<le> Offset pg \<and> Offset pg \<le> n \<longrightarrow>
             int (length (map mask (page_of matching (Offset pg) k))) = min k (n - Offset pg)))"
proof -
  have answer: "fst (GetMachines_answer E c s') =
       (case object_GetMaskedMachines E fetched of
          (ms, Some e) \<Rightarrow> ResponseError e
        | (ms, None) \<Rightarrow> ResponseOk [Machines ms, Num (Nums pg)])"
    using assms(1,2,3,5,6,7)
    by (auto simp: GetMachines_answer_def Let_def split: prod.splits option.splits)
  have r: "fst (GetMachines E c s) =
       (case object_GetMaskedMachines E fetched of
          (ms, Some e) \<Rightarrow> ResponseError e
        | (ms, None) \<Rightarrow> ResponseOk [Machines ms, Num (Nums pg)])"
    by (simp add: GetMachines_refines [OF assms(4)] answer)
  have len: "0 \<le> k \<and> 0 \<le> Offset pg \<and> Offset pg \<le> int (length matching) \<longrightarrow>
      int (min (nat k) (length matching - nat (Offset pg))) =
        min k (int (length matching) - Offset pg)" for matching :: "Machine list"
    by (auto simp: min_def)
  show ?thesis
    using r len by (auto simp: length_page_of simp del: of_nat_min)
qed

theorem GetMachines_paginated_witness:
  "fst (GetMachines demo_env
         (demo_request [(''owner'', ''alice''), (''pageSize'', ''1''), (''p'', ''2'')] '''')
         demo_store) =
     ResponseOk [Machines [demo_real\<lparr>State := ''Running'', PrivateIp := ''***''\<rparr>], Num 2] \<and>
   length [demo_real\<lparr>State := ''Running'', PrivateIp := ''***''\<rparr>] = min 1 (2 - 1)"
proof -
  let ?c = "demo_request [(''owner'', ''alice''), (''pageSize'', ''1''), (''p'', ''2'')] ''''"
  let ?s' = "[demo_default, demo_real\<lparr>State := ''Running''\<rparr>]"
  let ?pg = "\<lparr>Offset = 1, Nums = 2\<rparr>"
  let ?fetched = "([demo_real\<lparr>State := ''Running''\<rparr>], None :: error)"
  have 1: "Input ?c ''pageSize'' \<noteq> ''''" and 2: "Input ?c ''p'' \<noteq> ''''"
    by (simp_all add: demo_simps)
  have 3: "util_ParseInt demo_env (Input ?c ''pageSize'') = Some 1"
    by (simp add: demo_simps)
  have 4: "SyncIfNeeded demo_env (Input ?c ''owner'') demo_store = ((True, None), ?s')"
    by (simp add: SyncIfNeeded_def demo_simps)
  have 5: "object_GetMachineCount demo_env (Input ?c ''owner'') (Input ?c ''field'')
             (Input ?c ''value'') ?s' = (2, None)"
    by (simp add: demo_simps)
  have 6: "?pg = pagination_SetPaginator demo_env ?c 1 2"
    by (simp add: demo_simps)
  have 7: "?fetched = object_GetPaginationMachines demo_env (Input ?c ''owner'') (Offset ?pg) 1
             (Input ?c ''field'') (Input ?c ''value'') (Input ?c ''sortField'')
             (Input ?c ''sortOrder'') ?s'"
    by (simp add: demo_simps)
  have 8: "object_GetMaskedMachines demo_env ?fetched =
             (map demo_mask (page_of ?s' (Offset ?pg) 1), None)"
    by (simp add: demo_simps)
  have 9: "?fetched = (page_of ?s' (Offset ?pg) 1, None)"
    by (simp add: demo_simps)
  from GetMachines_paginated [OF 1 2 3 4 5 6 7]
  have "fst (GetMachines demo_env ?c demo_store) =
          ResponseOk [Machines (map demo_mask (page_of ?s' (Offset ?pg) 1)), Num (int (length ?s'))] \<and>
        length (map demo_mask (page_of ?s' (Offset ?pg) 1)) =
          min (nat 1) (length ?s' - nat (Offset ?pg))"
    using 8 9 by (auto simp del: of_nat_min)
  then show ?thesis
    by (simp add: demo_simps)
qed

section \<open>Non-numeric pagination parameters\<close>

text \<open>
  Claim C7, as stated, fails. \<open>GetMachines\<close> never parses \<open>p\<close>: it tests it for emptiness
  and hands the request to the paginator, which has no error result. With \<open>pageSize\<close>
  \<open>10\<close> and the non-numeric page \<open>abc\<close> the installation answers ok, with the first page.
\<close>

theorem GetMachines_page_not_validated:
  "Input (demo_request [(''owner'', ''alice''), (''pageSize'', ''10''), (''p'', ''abc'')] '''')
     ''pageSize'' \<noteq> '''' \<and>
   Input (demo_request [(''owner'', ''alice''), (''pageSize'', ''10''), (''p'', ''abc'')] '''')
     ''p'' = ''abc'' \<and>
   \<not> numeric ''abc'' \<and>
   fst (GetMachines demo_env
         (demo_request [(''owner'', ''alice''), (''pageSize'', ''10''), (''p'', ''abc'')] '''')
         demo_store) =
     ResponseOk [Machines [demo_default, demo_real\<lparr>State := ''Running'', PrivateIp := ''***''\<rparr>],
                 Num 2]"
  by (simp add: GetMachines_def GetMachines_answer_def Let_def demo_simps)

text \<open>
  Claim C7, amended. \<open>GetMachines\<close> has no parse or validation error of its own. For a
  paginated request that the initial fetch and the synchronization have not ended:
  if \<open>util.ParseInt\<close> refuses \<open>pageSize\<close> (it has no error result, so by a panic) the request
  ends there, with no count, no page fetch and no masking; if it returns an integer, that
  integer is the limit, and the answer is an error only when the count or the masked page
  fetch returns one, and is ok with the masked page and the paginator's \<open>Nums\<close> otherwise,
  whatever the page string is.
\<close>

theorem GetMachines_no_parse_error:
  assumes "Input c ''pageSize'' \<noteq> ''''" and "Input c ''p'' \<noteq> ''''"
      and "SyncIfNeeded E (Input c ''owner'') s = ((refreshed, None), s')"
  shows
    "(util_ParseInt E (Input c ''pageSize'') = None \<longrightarrow>
        fst (GetMachines E c s) = Panic \<and>
        (\<forall>ev \<in> set (snd (snd (GetMachines E c s))).
           \<not> is_mask ev \<and> (is_read ev \<longrightarrow> ev = CallGetMachines (Input c ''owner'')))) \<and>
     (\<forall>k. util_ParseInt E (Input c ''pageSize'') = Some k \<longrightarrow>
        (let cnt = object_GetMachineCount E (Input c ''owner'') (Input c ''field'')
                     (Input c ''value'') s';
             pg = pagination_SetPaginator E c k (fst cnt);
             masked = object_GetMaskedMachines E
                        (object_GetPaginationMachines E (Input c ''owner'') (Offset pg) k
                           (Input c ''field'') (Input c ''value'') (Input c ''sortField'')
                           (Input c ''sortOrder'') s')
         in fst (GetMachines E c s) =
              (case snd cnt of
                 Some e \<Rightarrow> ResponseError e
               | None \<Rightarrow>
                  (case snd masked of
                     Some e \<Rightarrow> ResponseError e
                   | None \<Rightarrow> ResponseOk [Machines (fst masked), Num (Nums pg)]))))"
proof -
  note whole = GetMachines_refines [OF assms(3)]
  have p: "fst (GetMachines E c s) = Panic \<and>
        (\<forall>ev \<in> set (snd (snd (GetMachines E c s))).
           \<not> is_mask ev \<and> (is_read ev \<longrightarrow> ev = CallGetMachines (Input c ''owner'')))"
    if "util_ParseInt E (Input c ''pageSize'') = None"
  proof -
    have a: "GetMachines_answer E c s' = (Panic, [])"
      using assms(1,2) that by (simp add: GetMachines_answer_def)
    have b: "\<not> is_mask ev \<and> \<not> is_read ev \<and> \<not> is_sync ev"
      if "ev \<in> set (snd (hasNonDefaultMachine_loop E ms))" for ev ms
      using loop_classify [OF that] by (cases ev) simp_all
    show ?thesis
      using b by (auto simp: whole a)
  qed
  have q: "(let cnt = object_GetMachineCount E (Input c ''owner'') (Input c ''field'')
                     (Input c ''value'') s';
             pg = pagination_SetPaginator E c k (fst cnt);
             masked = object_GetMaskedMachines E
                        (object_GetPaginationMachines E (Input c ''owner'') (Offset pg) k
                           (Input c ''field'') (Input c ''value'') (Input c ''sortField'')
                           (Input c ''sortOrder'') s')
         in fst (GetMachines E c s) =
              (case snd cnt of
                 Some e \<Rightarrow> ResponseError e
               | None \<Rightarrow>
                  (case snd masked of
                     Some e \<Rightarrow> ResponseError e
                   | None \<Rightarrow> ResponseOk [Machines (fst masked), Num (Nums pg)])))"
    if "util_ParseInt E (Input c ''pageSize'') = Some k" for k
    using assms(1,2) that
    by (auto simp: whole GetMachines_answer_def Let_def split: prod.splits option.splits)
  from p q show ?thesis by blast
qed

theorem GetMachines_no_parse_error_witness:
  "fst (GetMachines demo_env
         (demo_request [(''owner'', ''alice''), (''pageSize'', ''abc''), (''p'', ''1'')] '''')
         demo_store) = Panic \<and>
   fst (GetMachines demo_env
         (demo_request [(''owner'', ''alice''), (''pageSize'', ''1''), (''p'', ''xyz'')] '''')
         demo_store) = ResponseOk [Machines [demo_default], Num 2]"
proof -
  let ?c1 = "demo_request [(''owner'', ''alice''), (''pageSize'', ''abc''), (''p'', ''1'')] ''''"
  let ?c2 = "demo_request [(''owner'', ''alice''), (''pageSize'', ''1''), (''p'', ''xyz'')] ''''"
  let ?s' = "[demo_default, demo_real\<lparr>State := ''Running''\<rparr>]"
  have a1: "Input ?c1 ''pageSize'' \<noteq> ''''" and b1: "Input ?c1 ''p'' \<noteq> ''''"
    and a2: "Input ?c2 ''pageSize'' \<noteq> ''''" and b2: "Input ?c2 ''p'' \<noteq> ''''"
    by (simp_all add: demo_simps)
  have g1: "SyncIfNeeded demo_env (Input ?c1 ''owner'') demo_store = ((True, None), ?s')"
    and g2: "SyncIfNeeded demo_env (Input ?c2 ''owner'') demo_store = ((True, None), ?s')"
    by (simp_all add: SyncIfNeeded_def demo_simps)
  show ?thesis
    using GetMachines_no_parse_error [OF a1 b1 g1] GetMachines_no_parse_error [OF a2 b2 g2]
    by (simp add: demo_simps)
qed

section \<open>The write path\<close>

text \<open>
  Claim C8. When the request body fails to decode, \<open>UpdateMachine\<close>, \<open>AddMachine\<close> and
  \<open>DeleteMachine\<close> answer with the decode error, leave the store alone and make no call.
  When it decodes, the only call is the store operation on the decoded machine. No call of
  a write handler is a masking, a classification or a synchronization, and replacing the
  classifier, the masking functions and the synchronization by any others changes nothing
  in what a write handler does.
\<close>

theorem write_path:
  "(json_Unmarshal E (RequestBody c) = (m, Some e) \<longrightarrow>
      UpdateMachine E c s = (ResponseError e, s, []) \<and>
      AddMachine E c s = (ResponseError e, s, []) \<and>
      DeleteMachine E c s = (ResponseError e, s, [])) \<and>
   (json_Unmarshal E (RequestBody c) = (m, None) \<longrightarrow>
      UpdateMachine E c s =
        (ServeJSON (wrapActionResponse E (fst (object_UpdateMachine E (Input c ''id'') m s))),
         snd (object_UpdateMachine E (Input c ''id'') m s),
         [CallUpdateMachine (Input c ''id'') m]) \<and>
      AddMachine E c s =
        (ServeJSON (wrapActionResponse E (fst (object_AddMachine E m s))),
         snd (object_AddMachine E m s), [CallAddMachine m]) \<and>
      DeleteMachine E c s =
        (ServeJSON (wrapActionResponse E (fst (object_DeleteMachine E m s))),
         snd (object_DeleteMachine E m s), [CallDeleteMachine m])) \<and>
   (\<forall>ev \<in> set (snd (snd (UpdateMachine E c s))) \<union> set (snd (snd (AddMachine E c s))) \<union>
            set (snd (snd (DeleteMachine E c s))).
      \<not> is_mask ev \<and> \<not> is_classify ev \<and> \<not> is_sync ev) \<and>
   UpdateMachine (E\<lparr>IsDefault := f, object_GetMaskedMachines := g,
                    object_GetMaskedMachine := h, object_SyncMachinesCloud := k\<rparr>) c s =
     UpdateMachine E c s \<and>
   AddMachine (E\<lparr>IsDefault := f, object_GetMaskedMachines := g,
                 object_GetMaskedMachine := h, object_SyncMachinesCloud := k\<rparr>) c s =
     AddMachine E c s \<and>
   DeleteMachine (E\<lparr>IsDefault := f, object_GetMaskedMachines := g,
                    object_GetMaskedMachine := h, object_SyncMachinesCloud := k\<rparr>) c s =
     DeleteMachine E c s"
  by (auto simp: UpdateMachine_def AddMachine_def DeleteMachine_def Let_def
           split: prod.splits option.splits)

theorem write_path_witness:
  "AddMachine demo_env (demo_request [] ''{web2'') demo_store =
     (ResponseError ''unexpected end of JSON input'', demo_store, []) \<and>
   AddMachine demo_env (demo_request [] ''{web2}'') demo_store =
     (ServeJSON ''Affected'',
      demo_store @ [machine_zero\<lparr>Owner := ''alice'', Name := ''web2''\<rparr>],
      [CallAddMachine (machine_zero\<lparr>Owner := ''alice'', Name := ''web2''\<rparr>)]) \<and>
   DeleteMachine demo_env (demo_request [] ''{web1}'') demo_store =
     (ServeJSON ''Affected'', [demo_default],
      [CallDeleteMachine (machine_zero\<lparr>Owner := ''alice'', Name := ''web1''\<rparr>)])"
  using write_path [of demo_env "demo_request [] ''{web2''" machine_zero
      "''unexpected end of JSON input''" demo_store]
    write_path [of demo_env "demo_request [] ''{web2}''"
      "machine_zero\<lparr>Owner := ''alice'', Name := ''web2''\<rparr>" "''''" demo_store]
    write_path [of demo_env "demo_request [] ''{web1}''"
      "machine_zero\<lparr>Owner := ''alice'', Name := ''web1''\<rparr>" "''''" demo_store]
  by (simp add: demo_simps)

section \<open>Filter and sort parameters without pagination\<close>

lemma answer_unpaginated_cong:
  assumes "Input c1 ''owner'' = Input c2 ''owner''"
      and "Input c1 ''pageSize'' = Input c2 ''pageSize''"
      and "Input c1 ''p'' = Input c2 ''p''"
      and "Input c1 ''pageSize'' = '''' \<or> Input c1 ''p'' = ''''"
  shows "GetMachines_answer E c1 s = GetMachines_answer E c2 s"
  using assms by (auto simp: GetMachines_answer_def Let_def)

text \<open>
  Claim C9. Two list requests with the same owner, \<open>pageSize\<close> and \<open>p\<close>, one of the
  latter two empty, get the same answer from the same store, leave the same store and make
  the same calls, whatever their field, value, sortField and sortOrder are.
\<close>

theorem GetMachines_unpaginated_ignores_filter:
  assumes "Input c1 ''owner'' = Input c2 ''owner''"
      and "Input c1 ''pageSize'' = Input c2 ''pageSize''"
      and "Input c1 ''p'' = Input c2 ''p''"
      and "Input c1 ''pageSize'' = '''' \<or> Input c1 ''p'' = ''''"
  shows "GetMachines E c1 s = GetMachines E c2 s"
  by (simp add: GetMachines_def Let_def case_prod_unfold assms(1)
        answer_unpaginated_cong [OF assms] cong: if_cong option.case_cong)

theorem GetMachines_unpaginated_ignores_filter_witness:
  "GetMachines demo_env
     (demo_request [(''owner'', ''alice''), (''field'', ''state''), (''value'', ''Stopped''),
                    (''sortField'', ''name''), (''sortOrder'', ''descend'')] '''') demo_store =
   GetMachines demo_env (demo_request [(''owner'', ''alice'')] '''') demo_store"
  using GetMachines_unpaginated_ignores_filter [of
      "demo_request [(''owner'', ''alice''), (''field'', ''state''), (''value'', ''Stopped''),
                     (''sortField'', ''name''), (''sortOrder'', ''descend'')] ''''"
      "demo_request [(''owner'', ''alice'')] ''''" demo_env demo_store]
  by (simp add: demo_simps)

section \<open>The initial fetch\<close>

text \<open>
  Claim C10. When the initial owner-wide fetch of \<open>GetMachines\<close> returns an error, that
  error is the answer, the store is untouched and the fetch is the only call. When it
  succeeds, the first call is that fetch, which takes the owner and no filter; a
  synchronization is called exactly when the list it returned has a machine that is not
  default, and every request with the same owner makes the same synchronization calls,
  whatever its field, value and pagination parameters.
\<close>

theorem GetMachines_initial_fetch:
  "(object_GetMachines E (Input c ''owner'') s = (ms, Some e) \<longrightarrow>
      GetMachines E c s = (ResponseError e, s, [CallGetMachines (Input c ''owner'')])) \<and>
   (object_GetMachines E (Input c ''owner'') s = (ms, None) \<longrightarrow>
      ((\<exists>ev \<in> set (snd (snd (GetMachines E c s))). is_sync ev) \<longleftrightarrow>
         (\<exists>m \<in> set ms. \<not> IsDefault E m)) \<and>
      (\<exists>t. snd (snd (GetMachines E c s)) = CallGetMachines (Input c ''owner'') # t) \<and>
      (\<forall>c'. Input c' ''owner'' = Input c ''owner'' \<longrightarrow>
         filter is_sync (snd (snd (GetMachines E c' s))) =
         filter is_sync (snd (snd (GetMachines E c s)))))"
proof -
  have a: "object_GetMachines E (Input c ''owner'') s = (ms, Some e) \<longrightarrow>
      GetMachines E c s = (ResponseError e, s, [CallGetMachines (Input c ''owner'')])"
    by (simp add: GetMachines_def)
  have b: "(\<exists>ev \<in> set (snd (snd (GetMachines E c s))). is_sync ev) \<longleftrightarrow>
         (\<exists>m \<in> set ms. \<not> IsDefault E m)"
    if "object_GetMachines E (Input c ''owner'') s = (ms, None)"
  proof -
    have "(\<exists>ev \<in> set (snd (snd (GetMachines E c s))). is_sync ev) \<longleftrightarrow>
            filter is_sync (snd (snd (GetMachines E c s))) \<noteq> []"
      by (simp add: filter_empty_conv)
    then show ?thesis
      using that by (simp add: GetMachines_sync_calls)
  qed
  have c: "\<exists>t. snd (snd (GetMachines E c s)) = CallGetMachines (Input c ''owner'') # t"
    by (auto simp: GetMachines_def Let_def case_prod_unfold split: option.splits)
  have d: "filter is_sync (snd (snd (GetMachines E c' s))) =
           filter is_sync (snd (snd (GetMachines E c s)))"
    if "Input c' ''owner'' = Input c ''owner''" for c'
    using that by (simp add: GetMachines_sync_calls)
  from a b c d show ?thesis by blast
qed

theorem GetMachines_initial_fetch_witness:
  "GetMachines demo_env_store_down
     (demo_request [(''owner'', ''alice''), (''pageSize'', ''1''), (''p'', ''1''),
                    (''field'', ''state''), (''value'', ''Stopped'')] '''') demo_store =
     (ResponseError ''database is locked'', demo_store, [CallGetMachines ''alice'']) \<and>
   (\<exists>ev \<in> set (snd (snd (GetMachines demo_env
       (demo_request [(''owner'', ''alice''), (''pageSize'', ''1''), (''p'', ''1''),
                      (''field'', ''state''), (''value'', ''Stopped'')] '''') demo_store))).
      is_sync ev)"
  using GetMachines_initial_fetch [of demo_env_store_down
      "demo_request [(''owner'', ''alice''), (''pageSize'', ''1''), (''p'', ''1''),
                     (''field'', ''state''), (''value'', ''Stopped'')] ''''"
      demo_store "[]" "''database is locked''"]
    GetMachines_initial_fetch [of demo_env
      "demo_request [(''owner'', ''alice''), (''pageSize'', ''1''), (''p'', ''1''),
                     (''field'', ''state''), (''value'', ''Stopped'')] ''''"
      demo_store "[demo_default, demo_real]" "''''"]
  by (simp add: demo_simps)

end
